theory Spec2Isabelle
  imports Complex_Main
begin

section \<open>Bloch-sphere projection of the teleportation demo (app.py)\<close>

text \<open>
  The script app.py owns one function with a contract of its own,
  \<open>plot_bloch_vector\<close>, and three module-level lines that build the initial
  state from two sliders. Both are embedded here.

  Numbers: numpy's float64 and complex128 are idealised as \<open>real\<close> and
  \<open>complex\<close>, with one extra value \<open>NaN\<close> for the result of a function
  called outside its domain (numpy returns nan there, with a warning, and
  does not raise). Rounding is not modelled: every statement below is
  about exact real arithmetic.
\<close>

subsection \<open>Numbers with NaN\<close>

datatype 'a np = NaN | Fin 'a

type_synonym npfloat = "real np"
type_synonym npcomplex = "complex np"

text \<open>\<open>np.abs\<close> and \<open>np.angle\<close> of a complex number. \<open>np.angle\<close> is
  \<open>arctan2(imag, real)\<close>: the principal argument, and 0 at 0.\<close>

definition np_abs :: "complex \<Rightarrow> npfloat" where
  "np_abs z = Fin (cmod z)"

definition np_angle :: "complex \<Rightarrow> npfloat" where
  "np_angle z = Fin (Arg z)"

text \<open>\<open>np.arccos\<close> is nan outside [-1, 1]; \<open>np.sqrt\<close> is nan below 0.\<close>

fun np_arccos :: "npfloat \<Rightarrow> npfloat" where
  "np_arccos NaN = NaN"
| "np_arccos (Fin r) = (if - 1 \<le> r \<and> r \<le> 1 then Fin (arccos r) else NaN)"

fun np_sqrt :: "npfloat \<Rightarrow> npfloat" where
  "np_sqrt NaN = NaN"
| "np_sqrt (Fin r) = (if r < 0 then NaN else Fin (sqrt r))"

fun np_sin :: "npfloat \<Rightarrow> npfloat" where
  "np_sin NaN = NaN"
| "np_sin (Fin r) = Fin (sin r)"

fun np_cos :: "npfloat \<Rightarrow> npfloat" where
  "np_cos NaN = NaN"
| "np_cos (Fin r) = Fin (cos r)"

fun np_mul :: "npfloat \<Rightarrow> npfloat \<Rightarrow> npfloat" where
  "np_mul (Fin r) (Fin s) = Fin (r * s)"
| "np_mul _ _ = NaN"

fun np_sub :: "npfloat \<Rightarrow> npfloat \<Rightarrow> npfloat" where
  "np_sub (Fin r) (Fin s) = Fin (r - s)"
| "np_sub _ _ = NaN"

text \<open>A float times a complex number (the product in the definition of beta).\<close>

fun np_cmul :: "npfloat \<Rightarrow> complex \<Rightarrow> npcomplex" where
  "np_cmul (Fin r) z = Fin (complex_of_real r * z)"
| "np_cmul NaN z = NaN"

subsection \<open>The sphere mesh: \<open>np.mgrid\<close> with complex steps\<close>

text \<open>\<open>np.mgrid[s0:e0:n0 j, s1:e1:n1 j]\<close> is a pair of n0 x n1 arrays:
  entry (i, j) of the first is \<open>i * step0 + s0\<close>, of the second
  \<open>j * step1 + s1\<close>, with \<open>step = (stop - start) / (n - 1)\<close> (and 1 when
  n = 1), both ends included. The mesh holds finite numbers only, so it is a
  list of rows of reals.\<close>

type_synonym mesh = "real list list"

definition mgrid_axis :: "real \<Rightarrow> real \<Rightarrow> nat \<Rightarrow> real list" where
  "mgrid_axis start stop n =
     (let step = (if n \<noteq> 1 then (stop - start) / real (n - 1) else 1)
      in map (\<lambda>i. real i * step + start) [0..<n])"

definition mgrid :: "real \<times> real \<times> nat \<Rightarrow> real \<times> real \<times> nat \<Rightarrow> mesh \<times> mesh" where
  "mgrid s0 s1 =
     (case s0 of (start0, stop0, n0) \<Rightarrow>
      case s1 of (start1, stop1, n1) \<Rightarrow>
        (map (\<lambda>ui. replicate n1 ui) (mgrid_axis start0 stop0 n0),
         replicate n0 (mgrid_axis start1 stop1 n1)))"

definition mesh_map :: "(real \<Rightarrow> real) \<Rightarrow> mesh \<Rightarrow> mesh" where
  "mesh_map f m = map (map f) m"

definition mesh_mul :: "mesh \<Rightarrow> mesh \<Rightarrow> mesh" where
  "mesh_mul m1 m2 = map2 (map2 (*)) m1 m2"

subsection \<open>The plotly figure\<close>

record line_style =
  line_color :: string
  line_width :: int

record marker_style =
  marker_size :: int
  marker_color :: string

record surface =
  surface_x :: mesh
  surface_y :: mesh
  surface_z :: mesh
  surface_colorscale :: string
  surface_opacity :: real
  surface_showscale :: bool

record scatter3d =
  scatter_x :: "npfloat list"
  scatter_y :: "npfloat list"
  scatter_z :: "npfloat list"
  scatter_mode :: string
  scatter_line :: line_style
  scatter_marker :: marker_style
  scatter_name :: string

datatype trace = Surface surface | Scatter3d scatter3d

record axis =
  axis_title :: string
  axis_range :: "int list"

record scene =
  scene_xaxis :: axis
  scene_yaxis :: axis
  scene_zaxis :: axis
  scene_aspectmode :: string

record margin =
  margin_l :: int
  margin_r :: int
  margin_t :: int
  margin_b :: int

text \<open>A fresh figure has no trace and an empty layout; \<open>update_layout\<close>
  sets the properties it is given.\<close>

record layout =
  layout_title :: "string option"
  layout_width :: "int option"
  layout_height :: "int option"
  layout_scene :: "scene option"
  layout_margin :: "margin option"

record figure =
  fig_data :: "trace list"
  fig_layout :: layout

definition Figure :: figure where
  "Figure = \<lparr>fig_data = [],
            fig_layout = \<lparr>layout_title = None, layout_width = None, layout_height = None,
                          layout_scene = None, layout_margin = None\<rparr>\<rparr>"

definition add_trace :: "figure \<Rightarrow> trace \<Rightarrow> figure" where
  "add_trace fig tr = fig\<lparr>fig_data := fig_data fig @ [tr]\<rparr>"

definition add_surface :: "figure \<Rightarrow> mesh \<Rightarrow> mesh \<Rightarrow> mesh \<Rightarrow> string \<Rightarrow> real \<Rightarrow> bool \<Rightarrow> figure" where
  "add_surface fig xs ys zs cs op sh =
     add_trace fig (Surface \<lparr>surface_x = xs, surface_y = ys, surface_z = zs,
                             surface_colorscale = cs, surface_opacity = op,
                             surface_showscale = sh\<rparr>)"

definition update_layout :: "figure \<Rightarrow> string \<Rightarrow> int \<Rightarrow> int \<Rightarrow> scene \<Rightarrow> margin \<Rightarrow> figure" where
  "update_layout fig title w h sc mg =
     fig\<lparr>fig_layout := (fig_layout fig)\<lparr>layout_title := Some title, layout_width := Some w,
                                        layout_height := Some h, layout_scene := Some sc,
                                        layout_margin := Some mg\<rparr>\<rparr>"

subsection \<open>\<open>plot_bloch_vector\<close> (app.py, lines 18 to 51)\<close>

datatype error = IndexError

text \<open>\<open>statevector[i]\<close> for the indices 0 and 1 the function uses: Python
  raises IndexError past the end of the sequence.\<close>

definition getitem :: "'a list \<Rightarrow> nat \<Rightarrow> error + 'a" where
  "getitem xs i = (if i < length xs then Inr (xs ! i) else Inl IndexError)"

text \<open>The name of the vector trace is "Estado |psi>" with a Greek psi
  (U+03C8) and a right angle bracket (U+27E9): the two are given by their
  UTF-8 bytes.\<close>

definition estado_psi :: string where
  "estado_psi = ''Estado |'' @ [CHR 0xCF, CHR 0x88, CHR 0xE2, CHR 0x9F, CHR 0xA9]"

definition plot_bloch_vector :: "complex list \<Rightarrow> string \<Rightarrow> error + figure" where
  "plot_bloch_vector statevector title =
     (case getitem statevector 0 of Inl e \<Rightarrow> Inl e | Inr a \<Rightarrow>
      case getitem statevector 1 of Inl e \<Rightarrow> Inl e | Inr b \<Rightarrow>
      let theta = np_mul (Fin 2) (np_arccos (np_abs a));
          phi = np_sub (np_angle b) (np_angle a);
          x = np_mul (np_sin theta) (np_cos phi);
          y = np_mul (np_sin theta) (np_sin phi);
          z = np_cos theta;
          (u, v) = mgrid (0, 2 * pi, 40) (0, pi, 20);
          xs = mesh_mul (mesh_map cos u) (mesh_map sin v);
          ys = mesh_mul (mesh_map sin u) (mesh_map sin v);
          zs = mesh_map cos v;
          fig = Figure;
          fig = add_surface fig xs ys zs ''Viridis'' (3 / 10) False;
          fig = add_trace fig (Scatter3d
                  \<lparr>scatter_x = [Fin 0, x], scatter_y = [Fin 0, y], scatter_z = [Fin 0, z],
                   scatter_mode = ''lines+markers'',
                   scatter_line = \<lparr>line_color = ''red'', line_width = 8\<rparr>,
                   scatter_marker = \<lparr>marker_size = 6, marker_color = ''red''\<rparr>,
                   scatter_name = estado_psi\<rparr>);
          fig = update_layout fig title 450 450
                  \<lparr>scene_xaxis = \<lparr>axis_title = ''X'', axis_range = [- 1, 1]\<rparr>,
                   scene_yaxis = \<lparr>axis_title = ''Y'', axis_range = [- 1, 1]\<rparr>,
                   scene_zaxis = \<lparr>axis_title = ''Z'', axis_range = [- 1, 1]\<rparr>,
                   scene_aspectmode = ''cube''\<rparr>
                  \<lparr>margin_l = 0, margin_r = 0, margin_t = 30, margin_b = 0\<rparr>
      in Inr fig)"

subsection \<open>The slider state (app.py, lines 56 to 58)\<close>

text \<open>\<open>beta = np.sqrt(1 - alpha**2) * np.exp(1j * phase)\<close>, for the slider
  values alpha and phase.\<close>

definition beta :: "real \<Rightarrow> real \<Rightarrow> npcomplex" where
  "beta alpha phase = np_cmul (np_sqrt (Fin (1 - alpha ^ 2))) (exp (\<i> * complex_of_real phase))"

subsection \<open>Reading a scene\<close>

fun surfaces :: "trace list \<Rightarrow> surface list" where
  "surfaces [] = []"
| "surfaces (Surface s # ts) = s # surfaces ts"
| "surfaces (Scatter3d _ # ts) = surfaces ts"

fun scatters :: "trace list \<Rightarrow> scatter3d list" where
  "scatters [] = []"
| "scatters (Surface _ # ts) = scatters ts"
| "scatters (Scatter3d s # ts) = s # scatters ts"

text \<open>The two ends of the line of a scatter trace that has two points.\<close>

definition line_ends :: "scatter3d \<Rightarrow> ((npfloat \<times> npfloat \<times> npfloat) \<times> (npfloat \<times> npfloat \<times> npfloat)) option" where
  "line_ends s =
     (case (scatter_x s, scatter_y s, scatter_z s) of
        ([x0, x1], [y0, y1], [z0, z1]) \<Rightarrow> Some ((x0, y0, z0), (x1, y1, z1))
      | _ \<Rightarrow> None)"

text \<open>The Bloch vector a call draws: the far end of the line of the one
  scatter trace of the scene it returns.\<close>

definition vector_of :: "figure \<Rightarrow> (npfloat \<times> npfloat \<times> npfloat) option" where
  "vector_of fig =
     (case scatters (fig_data fig) of
        [s] \<Rightarrow> map_option snd (line_ends s)
      | _ \<Rightarrow> None)"

definition bloch_vector :: "complex list \<Rightarrow> string \<Rightarrow> (npfloat \<times> npfloat \<times> npfloat) option" where
  "bloch_vector statevector title =
     (case plot_bloch_vector statevector title of
        Inl e \<Rightarrow> None
      | Inr fig \<Rightarrow> vector_of fig)"

fun on_unit_sphere :: "npfloat \<times> npfloat \<times> npfloat \<Rightarrow> bool" where
  "on_unit_sphere (Fin x, Fin y, Fin z) = (x ^ 2 + y ^ 2 + z ^ 2 = 1)"
| "on_unit_sphere _ = False"

text \<open>A mesh of \<open>m\<close> rows, each of \<open>n\<close> entries.\<close>

definition has_shape :: "mesh \<Rightarrow> nat \<Rightarrow> nat \<Rightarrow> bool" where
  "has_shape m rows cols = (length m = rows \<and> list_all (\<lambda>r. length r = cols) m)"

text \<open>The points of a surface trace, row by row, and the points of the unit
  sphere. \<open>grid_u\<close> and \<open>grid_v\<close> are the 40 azimuths from 0 to 2 pi and
  the 20 polar angles from 0 to pi.\<close>

definition mesh_points :: "surface \<Rightarrow> (real \<times> real \<times> real) list" where
  "mesh_points s =
     concat (map2 (\<lambda>xr yzr. zip xr (zip (fst yzr) (snd yzr)))
               (surface_x s) (zip (surface_y s) (surface_z s)))"

fun unit_point :: "real \<times> real \<times> real \<Rightarrow> bool" where
  "unit_point (x, y, z) = (x ^ 2 + y ^ 2 + z ^ 2 = 1)"

definition grid_u :: "real list" where
  "grid_u = map (\<lambda>i. real i * (2 * pi / 39)) [0..<40]"

definition grid_v :: "real list" where
  "grid_v = map (\<lambda>j. real j * (pi / 19)) [0..<20]"

subsection \<open>The projection as the specification words it\<close>

text \<open>Section 4.1 of the specification, steps 1 to 3:
  theta = 2 arccos |a|, phi = arg b - arg a,
  x = sin theta cos phi, y = sin theta sin phi, z = cos theta.\<close>

definition spec_theta :: "complex \<Rightarrow> real" where
  "spec_theta a = 2 * arccos (cmod a)"

definition spec_phi :: "complex \<Rightarrow> complex \<Rightarrow> real" where
  "spec_phi a b = Arg b - Arg a"

definition spec_project :: "complex \<Rightarrow> complex \<Rightarrow> real \<times> real \<times> real" where
  "spec_project a b =
     (sin (spec_theta a) * cos (spec_phi a b),
      sin (spec_theta a) * sin (spec_phi a b),
      cos (spec_theta a))"

subsection \<open>The parts of the scene a call builds\<close>

text \<open>The three values of lines 20 to 24, the surface trace of lines 26 to 32,
  the vector trace of lines 33 to 39 and the layout of lines 40 to 50, each
  as one term; \<open>plot_bloch_vector_two\<close> below shows that
  \<open>plot_bloch_vector\<close> returns exactly the figure made of them.\<close>

definition code_vector :: "complex \<Rightarrow> complex \<Rightarrow> npfloat \<times> npfloat \<times> npfloat" where
  "code_vector a b =
     (np_mul (np_sin (np_mul (Fin 2) (np_arccos (np_abs a))))
             (np_cos (np_sub (np_angle b) (np_angle a))),
      np_mul (np_sin (np_mul (Fin 2) (np_arccos (np_abs a))))
             (np_sin (np_sub (np_angle b) (np_angle a))),
      np_cos (np_mul (Fin 2) (np_arccos (np_abs a))))"

definition sphere_surface :: surface where
  "sphere_surface =
     (case mgrid (0, 2 * pi, 40) (0, pi, 20) of (u, v) \<Rightarrow>
        \<lparr>surface_x = mesh_mul (mesh_map cos u) (mesh_map sin v),
         surface_y = mesh_mul (mesh_map sin u) (mesh_map sin v),
         surface_z = mesh_map cos v,
         surface_colorscale = ''Viridis'', surface_opacity = 3 / 10,
         surface_showscale = False\<rparr>)"

definition vector_trace :: "npfloat \<times> npfloat \<times> npfloat \<Rightarrow> scatter3d" where
  "vector_trace p =
     (case p of (x, y, z) \<Rightarrow>
        \<lparr>scatter_x = [Fin 0, x], scatter_y = [Fin 0, y], scatter_z = [Fin 0, z],
         scatter_mode = ''lines+markers'',
         scatter_line = \<lparr>line_color = ''red'', line_width = 8\<rparr>,
         scatter_marker = \<lparr>marker_size = 6, marker_color = ''red''\<rparr>,
         scatter_name = estado_psi\<rparr>)"

definition scene_layout :: "string \<Rightarrow> layout" where
  "scene_layout title =
     \<lparr>layout_title = Some title, layout_width = Some 450, layout_height = Some 450,
      layout_scene = Some
        \<lparr>scene_xaxis = \<lparr>axis_title = ''X'', axis_range = [- 1, 1]\<rparr>,
         scene_yaxis = \<lparr>axis_title = ''Y'', axis_range = [- 1, 1]\<rparr>,
         scene_zaxis = \<lparr>axis_title = ''Z'', axis_range = [- 1, 1]\<rparr>,
         scene_aspectmode = ''cube''\<rparr>,
      layout_margin = Some \<lparr>margin_l = 0, margin_r = 0, margin_t = 30, margin_b = 0\<rparr>\<rparr>"

text \<open>A vector of three finite coordinates.\<close>

definition fin3 :: "real \<times> real \<times> real \<Rightarrow> npfloat \<times> npfloat \<times> npfloat" where
  "fin3 p = (case p of (x, y, z) \<Rightarrow> (Fin x, Fin y, Fin z))"

text \<open>Replacing the title of a figure's layout, nothing else.\<close>

definition retitle :: "string \<Rightarrow> figure \<Rightarrow> figure" where
  "retitle title fig = fig\<lparr>fig_layout := (fig_layout fig)\<lparr>layout_title := Some title\<rparr>\<rparr>"

section \<open>What a call returns\<close>

lemma plot_bloch_vector_short:
  "length sv < 2 \<Longrightarrow> plot_bloch_vector sv title = Inl IndexError"
  by (cases sv; cases "tl sv") (auto simp: plot_bloch_vector_def getitem_def)

lemma plot_bloch_vector_two:
  "plot_bloch_vector (a # b # rest) title =
     Inr \<lparr>fig_data = [Surface sphere_surface, Scatter3d (vector_trace (code_vector a b))],
          fig_layout = scene_layout title\<rparr>"
  by (simp add: plot_bloch_vector_def getitem_def Let_def Figure_def add_surface_def
      add_trace_def update_layout_def code_vector_def sphere_surface_def vector_trace_def
      scene_layout_def split: prod.splits)

lemma bloch_vector_two: "bloch_vector (a # b # rest) title = Some (code_vector a b)"
  by (simp add: bloch_vector_def plot_bloch_vector_two vector_of_def line_ends_def
      vector_trace_def split: prod.splits)

lemma code_vector_finite: "cmod a \<le> 1 \<Longrightarrow> code_vector a b = fin3 (spec_project a b)"
proof -
  assume le: "cmod a \<le> 1"
  have "- 1 \<le> cmod a"
    by (rule order_trans [of _ 0]) simp_all
  with le show ?thesis
    by (simp add: code_vector_def fin3_def spec_project_def spec_theta_def spec_phi_def
        np_abs_def np_angle_def)
qed

lemma spec_project_unit:
  "(case spec_project a b of (x, y, z) \<Rightarrow> x ^ 2 + y ^ 2 + z ^ 2) = 1"
proof -
  have "(s * c) ^ 2 + (s * s') ^ 2 + k ^ 2 = s ^ 2 * (c ^ 2 + s' ^ 2) + k ^ 2"
    for s c s' k :: real
    by (simp add: power_mult_distrib distrib_left)
  then show ?thesis
    by (simp add: spec_project_def)
qed

lemma fin3_on_unit_sphere: "on_unit_sphere (fin3 (spec_project a b))"
  using spec_project_unit [of a b]
  by (simp add: fin3_def split: prod.splits)

lemma spec_theta_range: "cmod a \<le> 1 \<Longrightarrow> 0 \<le> spec_theta a \<and> spec_theta a \<le> pi"
proof -
  assume le: "cmod a \<le> 1"
  have ge: "0 \<le> cmod a"
    by simp
  from ge le have "arccos (cmod a) \<le> pi / 2"
    by (rule arccos_le_pi2)
  moreover have "- 1 \<le> cmod a"
    by (rule order_trans [of _ 0]) simp_all
  then have "0 \<le> arccos (cmod a)"
    using le by (rule arccos_lbound)
  ultimately show ?thesis
    by (simp add: spec_theta_def)
qed

lemma normalized_cmod_le_1: "(cmod a) ^ 2 + (cmod b) ^ 2 = 1 \<Longrightarrow> cmod a \<le> 1"
proof -
  assume n: "(cmod a) ^ 2 + (cmod b) ^ 2 = 1"
  from n zero_le_power2 [of "cmod b"] have "(cmod a) ^ 2 \<le> 1"
    by linarith
  then have "(cmod a) ^ 2 \<le> 1 ^ 2"
    by simp
  then show ?thesis
    by (rule power2_le_imp_le) simp
qed

subsection \<open>The sphere mesh is 40 by 20\<close>

lemma has_shape_map: "has_shape (mesh_map f m) r c = has_shape m r c"
  by (simp add: has_shape_def mesh_map_def list_all_iff)

lemma has_shape_mul:
  "has_shape m1 r c \<Longrightarrow> has_shape m2 r c \<Longrightarrow> has_shape (mesh_mul m1 m2) r c"
proof -
  assume s1: "has_shape m1 r c" and s2: "has_shape m2 r c"
  have "length (map2 (*) r1 r2) = c" if "(r1, r2) \<in> set (zip m1 m2)" for r1 r2 :: "real list"
  proof -
    from that have "r1 \<in> set m1" and "r2 \<in> set m2"
      by (auto dest: set_zip_leftD set_zip_rightD)
    with s1 s2 show ?thesis
      by (simp add: has_shape_def list_all_iff)
  qed
  with s1 s2 show ?thesis
    by (auto simp: has_shape_def mesh_mul_def list_all_iff)
qed

lemma has_shape_mgrid:
  "has_shape (fst (mgrid (s0, e0, n0) (s1, e1, n1))) n0 n1"
  "has_shape (snd (mgrid (s0, e0, n0) (s1, e1, n1))) n0 n1"
  by (simp_all add: has_shape_def mgrid_def mgrid_axis_def list_all_iff)

lemma sphere_surface_shape:
  "has_shape (surface_x sphere_surface) 40 20"
  "has_shape (surface_y sphere_surface) 40 20"
  "has_shape (surface_z sphere_surface) 40 20"
  using has_shape_mgrid [of 0 "2 * pi" 40 0 pi 20]
  by (auto simp: sphere_surface_def has_shape_map split: prod.splits intro!: has_shape_mul)

subsection \<open>The sphere mesh is the unit sphere on a 40 by 20 grid\<close>

lemma mgrid_axis_u: "mgrid_axis 0 (2 * pi) 40 = grid_u"
  by (simp add: mgrid_axis_def grid_u_def)

lemma mgrid_axis_v: "mgrid_axis 0 pi 20 = grid_v"
  by (simp add: mgrid_axis_def grid_v_def)

lemma map2_map_replicate:
  "n = length xs \<Longrightarrow> map2 F (map h xs) (replicate n c) = map (\<lambda>x. F (h x) c) xs"
  by (induction xs arbitrary: n) auto

lemma map2_replicate_map:
  "n = length ys \<Longrightarrow> map2 F (replicate n c) (map h ys) = map (\<lambda>y. F c (h y)) ys"
  by (induction ys arbitrary: n) auto

lemma mesh_mul_u_v:
  assumes "n0 = length us" and "n1 = length vs"
  shows "mesh_mul (mesh_map f (map (\<lambda>ui. replicate n1 ui) us)) (mesh_map g (replicate n0 vs)) =
     map (\<lambda>u. map (\<lambda>v. f u * g v) vs) us"
proof -
  have "mesh_mul (mesh_map f (map (\<lambda>ui. replicate n1 ui) us)) (mesh_map g (replicate n0 vs)) =
      map2 (map2 (*)) (map (\<lambda>u. replicate n1 (f u)) us) (replicate n0 (map g vs))"
    by (simp add: mesh_mul_def mesh_map_def o_def)
  also have "\<dots> = map (\<lambda>u. map2 (*) (replicate n1 (f u)) (map g vs)) us"
    using assms(1) by (rule map2_map_replicate)
  also have "\<dots> = map (\<lambda>u. map (\<lambda>v. f u * g v) vs) us"
    using assms(2) by (simp add: map2_replicate_map)
  finally show ?thesis .
qed

lemma mesh_map_v:
  "mesh_map g (replicate n0 vs) = replicate n0 (map g vs)"
  by (simp add: mesh_map_def)

lemma length_grid: "length grid_u = 40" "length grid_v = 20"
  by (simp_all add: grid_u_def grid_v_def)

lemma sphere_surface_x: "surface_x sphere_surface = map (\<lambda>u. map (\<lambda>v. cos u * sin v) grid_v) grid_u"
  by (simp add: sphere_surface_def mgrid_def mgrid_axis_u mgrid_axis_v mesh_mul_u_v length_grid)

lemma sphere_surface_y: "surface_y sphere_surface = map (\<lambda>u. map (\<lambda>v. sin u * sin v) grid_v) grid_u"
  by (simp add: sphere_surface_def mgrid_def mgrid_axis_u mgrid_axis_v mesh_mul_u_v length_grid)

lemma sphere_surface_z: "surface_z sphere_surface = map (\<lambda>u. map (\<lambda>v. cos v) grid_v) grid_u"
  by (simp add: sphere_surface_def mgrid_def mgrid_axis_u mgrid_axis_v mesh_map_v length_grid
      map_replicate_const)

lemma zip_map_map_same: "zip (map f xs) (map g xs) = map (\<lambda>x. (f x, g x)) xs"
  by (induction xs) auto

lemma mesh_points_sphere:
  "mesh_points sphere_surface =
     concat (map (\<lambda>u. map (\<lambda>v. (cos u * sin v, sin u * sin v, cos v)) grid_v) grid_u)"
  by (simp add: mesh_points_def sphere_surface_x sphere_surface_y sphere_surface_z
      zip_map_map_same o_def)

lemma unit_point_sphere: "unit_point (cos u * sin v, sin u * sin v, cos v)"
proof -
  have "(c * s) ^ 2 + (s' * s) ^ 2 + k ^ 2 = s ^ 2 * (c ^ 2 + s' ^ 2) + k ^ 2"
    for s c s' k :: real
    by (simp add: power_mult_distrib algebra_simps)
  then show ?thesis
    by simp
qed

lemma mesh_points_unit: "list_all unit_point (mesh_points sphere_surface)"
  by (simp add: mesh_points_sphere list_all_iff unit_point_sphere del: unit_point.simps)

lemma mesh_points_length: "length (mesh_points sphere_surface) = 800"
  by (simp add: mesh_points_sphere length_concat o_def length_grid sum_list_triv)

subsection \<open>Modulus and argument of the equator amplitudes\<close>

lemma cmod_inv_sqrt2: "cmod (1 / complex_of_real (sqrt 2)) = 1 / sqrt 2"
  by (simp add: norm_divide)

lemma arg_inv_sqrt2: "Arg (1 / complex_of_real (sqrt 2)) = 0"
  by (rule cis_Arg_unique) (simp_all add: sgn_eq norm_divide)

lemma arg_i_sqrt2: "Arg (\<i> / complex_of_real (sqrt 2)) = pi / 2"
  by (rule cis_Arg_unique) (simp_all add: sgn_eq norm_divide)

lemma inv_sqrt2_bounds: "- 1 \<le> 1 / sqrt 2" "1 / sqrt 2 \<le> 1"
  by (simp_all add: order_trans [of _ 0])

subsection \<open>The slider state\<close>

lemma beta_finite:
  "0 \<le> alpha \<Longrightarrow> alpha \<le> 1 \<Longrightarrow>
   beta alpha phase = Fin (complex_of_real (sqrt (1 - alpha ^ 2)) * exp (\<i> * complex_of_real phase))"
proof -
  assume "0 \<le> alpha" "alpha \<le> 1"
  then have "alpha ^ 2 \<le> 1"
    by (simp add: power_le_one)
  then show ?thesis
    by (simp add: beta_def)
qed

section \<open>The claims\<close>

text \<open>
  C1. For a state whose first amplitude has modulus at most 1, the vector
  \<open>plot_bloch_vector\<close> draws is finite and is given by
  theta = 2 arccos |a|, phi = arg b - arg a, x = sin theta cos phi,
  y = sin theta sin phi, z = cos theta; and theta lies in [0, pi].
\<close>

theorem plot_bloch_vector_formulas:
  "cmod a \<le> 1 \<Longrightarrow>
   bloch_vector (a # b # rest) title =
     Some (Fin (sin (2 * arccos (cmod a)) * cos (Arg b - Arg a)),
           Fin (sin (2 * arccos (cmod a)) * sin (Arg b - Arg a)),
           Fin (cos (2 * arccos (cmod a)))) \<and>
   0 \<le> 2 * arccos (cmod a) \<and> 2 * arccos (cmod a) \<le> pi"
  using spec_theta_range [of a]
  by (simp add: bloch_vector_two code_vector_finite fin3_def spec_project_def spec_theta_def
      spec_phi_def)

theorem plot_bloch_vector_formulas_witness:
  "cmod 1 \<le> 1 \<and> bloch_vector [1, 0] ''psi'' = Some (Fin 0, Fin 0, Fin 1)"
  using plot_bloch_vector_formulas [of 1 0 "[]" "''psi''"]
  by simp

text \<open>
  C2. For a normalized state, |a|^2 + |b|^2 = 1, the vector drawn is finite
  and satisfies x^2 + y^2 + z^2 = 1.
\<close>

theorem normalized_on_unit_sphere:
  "(cmod a) ^ 2 + (cmod b) ^ 2 = 1 \<Longrightarrow>
   \<exists>x y z. bloch_vector (a # b # rest) title = Some (Fin x, Fin y, Fin z) \<and>
           x ^ 2 + y ^ 2 + z ^ 2 = 1"
proof -
  assume "(cmod a) ^ 2 + (cmod b) ^ 2 = 1"
  then have "cmod a \<le> 1"
    by (rule normalized_cmod_le_1)
  then have "bloch_vector (a # b # rest) title = Some (fin3 (spec_project a b))"
    by (simp add: bloch_vector_two code_vector_finite)
  with spec_project_unit [of a b] show ?thesis
    by (auto simp: fin3_def split: prod.splits)
qed

theorem normalized_on_unit_sphere_witness:
  "(cmod 0) ^ 2 + (cmod \<i>) ^ 2 = 1 \<and>
   (\<exists>x y z. bloch_vector [0, \<i>] [] = Some (Fin x, Fin y, Fin z) \<and> x ^ 2 + y ^ 2 + z ^ 2 = 1)"
  using normalized_on_unit_sphere [of 0 \<i> "[]" "[]"]
  by simp

text \<open>
  C3. The canonical states go to the axis points: (1, 0) to (0, 0, 1),
  (0, 1) to (0, 0, -1), (1/sqrt 2, 1/sqrt 2) to (1, 0, 0) and
  (1/sqrt 2, i/sqrt 2) to (0, 1, 0).
\<close>

theorem canonical_states:
  "bloch_vector [1, 0] title = Some (Fin 0, Fin 0, Fin 1) \<and>
   bloch_vector [0, 1] title = Some (Fin 0, Fin 0, Fin (- 1)) \<and>
   bloch_vector [1 / complex_of_real (sqrt 2), 1 / complex_of_real (sqrt 2)] title
     = Some (Fin 1, Fin 0, Fin 0) \<and>
   bloch_vector [1 / complex_of_real (sqrt 2), \<i> / complex_of_real (sqrt 2)] title
     = Some (Fin 0, Fin 1, Fin 0)"
proof -
  have north: "bloch_vector [1, 0] title = Some (Fin 0, Fin 0, Fin 1)"
    by (simp add: bloch_vector_two code_vector_def np_abs_def np_angle_def)
  have south: "bloch_vector [0, 1] title = Some (Fin 0, Fin 0, Fin (- 1))"
    by (simp add: bloch_vector_two code_vector_def np_abs_def np_angle_def)
  have plus: "bloch_vector [1 / complex_of_real (sqrt 2), 1 / complex_of_real (sqrt 2)] title
      = Some (Fin 1, Fin 0, Fin 0)"
    using inv_sqrt2_bounds
    by (simp add: bloch_vector_two code_vector_def np_abs_def np_angle_def
        arccos_one_over_sqrt_2 cmod_inv_sqrt2 arg_inv_sqrt2)
  have plus_i: "bloch_vector [1 / complex_of_real (sqrt 2), \<i> / complex_of_real (sqrt 2)] title
      = Some (Fin 0, Fin 1, Fin 0)"
    using inv_sqrt2_bounds
    by (simp add: bloch_vector_two code_vector_def np_abs_def np_angle_def
        arccos_one_over_sqrt_2 cmod_inv_sqrt2 arg_inv_sqrt2 arg_i_sqrt2)
  from north south plus plus_i show ?thesis
    by blast
qed

text \<open>
  C4 says that an unnormalized state is not detected, raises no error and
  gives a vector off the unit sphere. The last part fails: the state (1, 1)
  has |a|^2 + |b|^2 = 2, the call returns a scene, and the vector drawn is
  the north pole (0, 0, 1).
\<close>

theorem unnormalized_off_sphere_counterexample:
  "(cmod 1) ^ 2 + (cmod 1) ^ 2 \<noteq> 1 \<and>
   plot_bloch_vector [1, 1] [] \<noteq> Inl IndexError \<and>
   bloch_vector [1, 1] [] = Some (Fin 0, Fin 0, Fin 1) \<and>
   on_unit_sphere (Fin 0, Fin 0, Fin 1)"
  by (simp add: plot_bloch_vector_two bloch_vector_two code_vector_def np_abs_def np_angle_def)

text \<open>
  C4, amended. For an unnormalized state the call raises no error and
  returns a scene. The vector drawn need not be off the unit sphere:
  whenever |a| \<le> 1 it is the vector of the formulas of C1, which is on the
  unit sphere.
\<close>

theorem unnormalized_not_detected:
  "(cmod a) ^ 2 + (cmod b) ^ 2 \<noteq> 1 \<Longrightarrow>
   (\<exists>fig. plot_bloch_vector (a # b # rest) title = Inr fig) \<and>
   (cmod a \<le> 1 \<longrightarrow>
      bloch_vector (a # b # rest) title = Some (fin3 (spec_project a b)) \<and>
      on_unit_sphere (fin3 (spec_project a b)))"
  by (simp add: plot_bloch_vector_two bloch_vector_two code_vector_finite fin3_on_unit_sphere)

theorem unnormalized_not_detected_witness:
  "(cmod 0) ^ 2 + (cmod 2) ^ 2 \<noteq> 1 \<and> cmod 0 \<le> 1 \<and>
   (\<exists>fig. plot_bloch_vector [0, 2] [] = Inr fig) \<and>
   bloch_vector [0, 2] [] = Some (Fin 0, Fin 0, Fin (- 1)) \<and>
   on_unit_sphere (Fin 0, Fin 0, Fin (- 1))"
  using unnormalized_not_detected [of 0 2 "[]" "[]"]
  by (simp add: fin3_def spec_project_def spec_theta_def)

text \<open>
  C5. The z coordinate depends on |a| alone: two states whose first
  amplitudes have the same modulus get the same z, whatever their second
  amplitudes (and so whatever arg b) are.
\<close>

theorem z_phase_invariant:
  "cmod a = cmod a' \<Longrightarrow>
   map_option (snd \<circ> snd) (bloch_vector (a # b # rest) title) =
     Some (np_cos (np_mul (Fin 2) (np_arccos (Fin (cmod a))))) \<and>
   map_option (snd \<circ> snd) (bloch_vector (a' # b' # rest') title') =
     map_option (snd \<circ> snd) (bloch_vector (a # b # rest) title)"
  by (simp add: bloch_vector_two code_vector_def np_abs_def)

theorem z_phase_invariant_witness:
  "cmod 1 = cmod (- 1) \<and>
   map_option (snd \<circ> snd) (bloch_vector [1, 0] []) = Some (Fin 1) \<and>
   map_option (snd \<circ> snd) (bloch_vector [- 1, \<i>] []) = map_option (snd \<circ> snd) (bloch_vector [1, 0] [])"
  using z_phase_invariant [of 1 "- 1" 0 "[]" "[]" \<i> "[]" "[]"]
  by simp

text \<open>
  C6. For a slider value alpha in [0, 1] and any phase, beta is a finite
  complex number and the state (alpha, beta) is normalized:
  alpha^2 + |beta|^2 = 1.
\<close>

theorem beta_normalized:
  "0 \<le> alpha \<Longrightarrow> alpha \<le> 1 \<Longrightarrow>
   \<exists>b. beta alpha phase = Fin b \<and> alpha ^ 2 + (cmod b) ^ 2 = 1 \<and>
       (cmod (complex_of_real alpha)) ^ 2 + (cmod b) ^ 2 = 1"
proof -
  assume a: "0 \<le> alpha" "alpha \<le> 1"
  then have le: "alpha ^ 2 \<le> 1"
    by (simp add: power_le_one)
  have "cmod (exp (\<i> * complex_of_real phase)) = 1"
    by (simp add: cis_conv_exp [symmetric])
  with le have "alpha ^ 2 +
      (cmod (complex_of_real (sqrt (1 - alpha ^ 2)) * exp (\<i> * complex_of_real phase))) ^ 2 = 1"
    by (simp add: norm_mult)
  with beta_finite [OF a] show ?thesis
    by simp
qed

theorem beta_normalized_witness:
  "(0::real) \<le> 0 \<and> (0::real) \<le> 1 \<and>
   (\<exists>b. beta 0 0 = Fin b \<and> 0 ^ 2 + (cmod b) ^ 2 = (1::real) \<and>
        (cmod (complex_of_real 0)) ^ 2 + (cmod b) ^ 2 = 1)"
  using beta_normalized [of 0 0]
  by simp

text \<open>
  C7. For every state of at least two amplitudes and every title, the scene
  returned holds exactly two traces. The first is one surface: the unit
  sphere, its mesh being (cos u sin v, sin u sin v, cos v) at the 40 by 20
  angles of \<open>grid_u\<close> and \<open>grid_v\<close>, 800 points that all satisfy
  x^2 + y^2 + z^2 = 1. The second is one line trace, from the origin to the
  vector (x, y, z) of lines 22 to 24. The three axis ranges are [-1, 1] and
  the aspect mode is cube.
\<close>

theorem scene_shape:
  "\<exists>fig vec sc.
     plot_bloch_vector (a # b # rest) title = Inr fig \<and>
     fig_data fig = [Surface sphere_surface, Scatter3d vec] \<and>
     surfaces (fig_data fig) = [sphere_surface] \<and>
     scatters (fig_data fig) = [vec] \<and>
     surface_x sphere_surface = map (\<lambda>u. map (\<lambda>v. cos u * sin v) grid_v) grid_u \<and>
     surface_y sphere_surface = map (\<lambda>u. map (\<lambda>v. sin u * sin v) grid_v) grid_u \<and>
     surface_z sphere_surface = map (\<lambda>u. map (\<lambda>v. cos v) grid_v) grid_u \<and>
     has_shape (surface_x sphere_surface) 40 20 \<and>
     has_shape (surface_y sphere_surface) 40 20 \<and>
     has_shape (surface_z sphere_surface) 40 20 \<and>
     length (mesh_points sphere_surface) = 800 \<and>
     list_all unit_point (mesh_points sphere_surface) \<and>
     scatter_mode vec = ''lines+markers'' \<and>
     line_ends vec = Some ((Fin 0, Fin 0, Fin 0), code_vector a b) \<and>
     bloch_vector (a # b # rest) title = Some (code_vector a b) \<and>
     layout_scene (fig_layout fig) = Some sc \<and>
     axis_range (scene_xaxis sc) = [- 1, 1] \<and>
     axis_range (scene_yaxis sc) = [- 1, 1] \<and>
     axis_range (scene_zaxis sc) = [- 1, 1] \<and>
     scene_aspectmode sc = ''cube''"
proof -
  have mesh: "surface_x sphere_surface = map (\<lambda>u. map (\<lambda>v. cos u * sin v) grid_v) grid_u \<and>
     surface_y sphere_surface = map (\<lambda>u. map (\<lambda>v. sin u * sin v) grid_v) grid_u \<and>
     surface_z sphere_surface = map (\<lambda>u. map (\<lambda>v. cos v) grid_v) grid_u \<and>
     has_shape (surface_x sphere_surface) 40 20 \<and>
     has_shape (surface_y sphere_surface) 40 20 \<and>
     has_shape (surface_z sphere_surface) 40 20 \<and>
     length (mesh_points sphere_surface) = 800 \<and>
     list_all unit_point (mesh_points sphere_surface)"
    using sphere_surface_x sphere_surface_y sphere_surface_z sphere_surface_shape
      mesh_points_length mesh_points_unit
    by blast
  have rest: "\<exists>vec sc.
     fig_data \<lparr>fig_data = [Surface sphere_surface, Scatter3d (vector_trace (code_vector a b))],
          fig_layout = scene_layout title\<rparr> = [Surface sphere_surface, Scatter3d vec] \<and>
     scatter_mode vec = ''lines+markers'' \<and>
     line_ends vec = Some ((Fin 0, Fin 0, Fin 0), code_vector a b) \<and>
     layout_scene (scene_layout title) = Some sc \<and>
     axis_range (scene_xaxis sc) = [- 1, 1] \<and>
     axis_range (scene_yaxis sc) = [- 1, 1] \<and>
     axis_range (scene_zaxis sc) = [- 1, 1] \<and>
     scene_aspectmode sc = ''cube''"
    by (simp add: scene_layout_def line_ends_def vector_trace_def split: prod.splits)
  then obtain vec sc where
    "fig_data \<lparr>fig_data = [Surface sphere_surface, Scatter3d (vector_trace (code_vector a b))],
          fig_layout = scene_layout title\<rparr> = [Surface sphere_surface, Scatter3d vec]"
    "scatter_mode vec = ''lines+markers''"
    "line_ends vec = Some ((Fin 0, Fin 0, Fin 0), code_vector a b)"
    "layout_scene (scene_layout title) = Some sc"
    "axis_range (scene_xaxis sc) = [- 1, 1]"
    "axis_range (scene_yaxis sc) = [- 1, 1]"
    "axis_range (scene_zaxis sc) = [- 1, 1]"
    "scene_aspectmode sc = ''cube''"
    by blast
  with mesh show ?thesis
    by (simp add: plot_bloch_vector_two bloch_vector_two has_shape_def list_all_iff length_grid)
qed

text \<open>
  C9. For every state with |a| \<le> 1, normalized or not, and also for
  b = 0, the vector drawn is finite and satisfies x^2 + y^2 + z^2 = 1.
\<close>

theorem unit_sphere_without_normalization:
  "cmod a \<le> 1 \<Longrightarrow>
   \<exists>x y z. bloch_vector (a # b # rest) title = Some (Fin x, Fin y, Fin z) \<and>
           x ^ 2 + y ^ 2 + z ^ 2 = 1"
proof -
  assume "cmod a \<le> 1"
  then have "bloch_vector (a # b # rest) title = Some (fin3 (spec_project a b))"
    by (simp add: bloch_vector_two code_vector_finite)
  with spec_project_unit [of a b] show ?thesis
    by (auto simp: fin3_def split: prod.splits)
qed

theorem unit_sphere_without_normalization_witness:
  "cmod 0 \<le> 1 \<and> (cmod 0) ^ 2 + (cmod 0) ^ 2 \<noteq> 1 \<and>
   (\<exists>x y z. bloch_vector [0, 0] [] = Some (Fin x, Fin y, Fin z) \<and> x ^ 2 + y ^ 2 + z ^ 2 = 1)"
  using unit_sphere_without_normalization [of 0 0 "[]" "[]"]
  by simp

text \<open>
  C10. The title reaches the layout's title field and nothing else: a call
  with another title returns the same result with that one field replaced
  (an IndexError stays an IndexError). For a state of at least two
  amplitudes the traces, the vector drawn and the 40 by 20 sphere mesh are
  the same for both titles.
\<close>

theorem title_only_in_layout:
  "plot_bloch_vector sv title' = map_sum id (retitle title') (plot_bloch_vector sv title) \<and>
   (\<exists>fig fig' sph.
      plot_bloch_vector (a # b # rest) title = Inr fig \<and>
      plot_bloch_vector (a # b # rest) title' = Inr fig' \<and>
      fig_data fig' = fig_data fig \<and>
      bloch_vector (a # b # rest) title' = bloch_vector (a # b # rest) title \<and>
      surfaces (fig_data fig) = [sph] \<and>
      has_shape (surface_x sph) 40 20 \<and>
      has_shape (surface_y sph) 40 20 \<and>
      has_shape (surface_z sph) 40 20 \<and>
      layout_title (fig_layout fig) = Some title \<and>
      fig_layout fig' = (fig_layout fig)\<lparr>layout_title := Some title'\<rparr>)"
proof -
  have retitled: "plot_bloch_vector sv title' = map_sum id (retitle title') (plot_bloch_vector sv title)"
  proof (cases "length sv < 2")
    case True
    then show ?thesis
      by (simp add: plot_bloch_vector_short)
  next
    case False
    then obtain a0 b0 rest0 where "sv = a0 # b0 # rest0"
      by (cases sv; cases "tl sv") auto
    then show ?thesis
      by (simp add: plot_bloch_vector_two retitle_def scene_layout_def)
  qed
  have "fig_layout \<lparr>fig_data = d, fig_layout = scene_layout title'\<rparr> =
      (fig_layout \<lparr>fig_data = d, fig_layout = scene_layout title\<rparr>)\<lparr>layout_title := Some title'\<rparr>"
    for d :: "trace list"
    by (simp add: scene_layout_def)
  with sphere_surface_shape retitled show ?thesis
    by (simp add: plot_bloch_vector_two bloch_vector_two scene_layout_def)
qed

end
